theory Spec2Isabelle
  imports Complex_Main
begin

section \<open>Python floats\<close>

text \<open>
  A Python float is an IEEE 754 binary64 number: a finite value, an infinity or NaN. The
  finite values carry their real number; an arithmetic operation on finite operands
  computes the exact real result and rounds it to the nearest binary64 value, ties to
  even, with overflow to an infinity. The sign of zero is not tracked: it decides no
  comparison, no truth value and no branch of the functions below.

  \<open>rnd\<close> rounds with 53 significant bits at the binade of its argument, and with the
  fixed spacing \<open>2^-1074\<close> below \<open>2^-1022\<close> (the subnormal range).
\<close>

datatype pyfloat = Finite real | PosInf | NegInf | NaN

definition pow2 :: "int \<Rightarrow> real" where
  "pow2 q = (if 0 \<le> q then 2 ^ nat q else 1 / 2 ^ nat (- q))"

definition round_even :: "real \<Rightarrow> int" where
  "round_even y =
     (let f = \<lfloor>y\<rfloor>; r = y - of_int f
      in if r < 1 / 2 then f else if 1 / 2 < r then f + 1 else if even f then f else f + 1)"

definition binade :: "real \<Rightarrow> int" where
  "binade x = \<lfloor>log 2 \<bar>x\<bar>\<rfloor>"

definition rnd :: "real \<Rightarrow> real" where
  "rnd x =
     (if x = 0 then 0
      else let q = max (binade x) (- 1022) - 52
           in of_int (round_even (x / pow2 q)) * pow2 q)"

definition huge :: real where
  "huge = 2 ^ 1024"

definition fl :: "real \<Rightarrow> pyfloat" where
  "fl x =
     (let y = rnd x
      in if huge \<le> y then PosInf else if y \<le> - huge then NegInf else Finite y)"

definition is_zero :: "pyfloat \<Rightarrow> bool" where
  "is_zero a = (a = Finite 0)"

fun fneg :: "pyfloat \<Rightarrow> pyfloat" where
  "fneg (Finite x) = Finite (- x)"
| "fneg PosInf = NegInf"
| "fneg NegInf = PosInf"
| "fneg NaN = NaN"

fun fadd :: "pyfloat \<Rightarrow> pyfloat \<Rightarrow> pyfloat" where
  "fadd (Finite x) (Finite y) = fl (x + y)"
| "fadd NaN b = NaN"
| "fadd a NaN = NaN"
| "fadd PosInf NegInf = NaN"
| "fadd NegInf PosInf = NaN"
| "fadd PosInf b = PosInf"
| "fadd NegInf b = NegInf"
| "fadd a PosInf = PosInf"
| "fadd a NegInf = NegInf"

definition fsub :: "pyfloat \<Rightarrow> pyfloat \<Rightarrow> pyfloat" where
  "fsub a b = fadd a (fneg b)"

fun fsign :: "pyfloat \<Rightarrow> int" where
  "fsign (Finite x) = sgn \<lfloor>sgn x\<rfloor>"
| "fsign PosInf = 1"
| "fsign NegInf = - 1"
| "fsign NaN = 0"

definition signed_inf :: "int \<Rightarrow> pyfloat" where
  "signed_inf s = (if s = 0 then NaN else if 0 < s then PosInf else NegInf)"

fun fmul :: "pyfloat \<Rightarrow> pyfloat \<Rightarrow> pyfloat" where
  "fmul (Finite x) (Finite y) = fl (x * y)"
| "fmul NaN b = NaN"
| "fmul a NaN = NaN"
| "fmul a b = signed_inf (fsign a * fsign b)"

fun fdiv :: "pyfloat \<Rightarrow> pyfloat \<Rightarrow> pyfloat" where
  "fdiv (Finite x) (Finite y) = (if y = 0 then NaN else fl (x / y))"
| "fdiv NaN b = NaN"
| "fdiv a NaN = NaN"
| "fdiv (Finite x) b = Finite 0"
| "fdiv a (Finite y) = signed_inf (fsign a * fsign (Finite y))"
| "fdiv a b = NaN"

fun flt :: "pyfloat \<Rightarrow> pyfloat \<Rightarrow> bool" where
  "flt (Finite x) (Finite y) = (x < y)"
| "flt NaN b = False"
| "flt a NaN = False"
| "flt a NegInf = False"
| "flt PosInf b = False"
| "flt a PosInf = True"
| "flt NegInf b = True"

fun fle :: "pyfloat \<Rightarrow> pyfloat \<Rightarrow> bool" where
  "fle (Finite x) (Finite y) = (x \<le> y)"
| "fle NaN b = False"
| "fle a NaN = False"
| "fle NegInf b = True"
| "fle a PosInf = True"
| "fle a NegInf = False"
| "fle PosInf b = False"

fun fabs :: "pyfloat \<Rightarrow> pyfloat" where
  "fabs (Finite x) = Finite \<bar>x\<bar>"
| "fabs PosInf = PosInf"
| "fabs NegInf = PosInf"
| "fabs NaN = NaN"

definition float_of_int :: "int \<Rightarrow> pyfloat" where
  "float_of_int k = fl (of_int k)"

text \<open>
  Adding the items of a list to the start value 0 from left to right. This is what an
  accumulating loop does, and what the builtin \<^verbatim>\<open>sum\<close> does on floats up to
  CPython 3.11; from version 3.12 the builtin also compensates the rounding errors.
\<close>

definition py_sum :: "pyfloat list \<Rightarrow> pyfloat" where
  "py_sum xs = foldl fadd (Finite 0) xs"

section \<open>Data model (monitoring/models.py)\<close>

text \<open>
  The Django models as records. A timestamp is an instant counted in microseconds (the
  resolution of \<^verbatim>\<open>datetime\<close>); nullable columns are options. The columns the
  database fills in by itself (the row id, \<^verbatim>\<open>created_at\<close>) are left out.
\<close>

record DWLRStation =
  station_code :: string
  well_depth :: "pyfloat option"
  elevation :: "pyfloat option"
  last_data_update :: "int option"

record WaterLevel =
  station :: string
  timestamp :: int
  depth :: pyfloat
  water_level_elevation :: "pyfloat option"
  data_source :: string

datatype py_error =
  ZeroDivisionError | ValueError | TypeError | OverflowError | MultipleObjectsReturned

section \<open>Python primitives used by the services\<close>

text \<open>\<^verbatim>\<open>a / b\<close> on floats raises on a zero divisor.\<close>

definition py_truediv :: "pyfloat \<Rightarrow> pyfloat \<Rightarrow> py_error + pyfloat" where
  "py_truediv a b = (if is_zero b then Inl ZeroDivisionError else Inr (fdiv a b))"

text \<open>
  \<^verbatim>\<open>(a - b).days\<close>: a \<^verbatim>\<open>timedelta\<close> is normalised with its seconds and
  microseconds non-negative, so the day count is the floor of the difference.
\<close>

definition days_between :: "int \<Rightarrow> int \<Rightarrow> int" where
  "days_between a b = (a - b) div 86400000000"

text \<open>
  Truthiness of an optional float: \<^verbatim>\<open>None\<close> and zero are false, everything else
  (NaN too) is true.
\<close>

definition truthy_opt :: "pyfloat option \<Rightarrow> bool" where
  "truthy_opt v = (case v of None \<Rightarrow> False | Some x \<Rightarrow> \<not> is_zero x)"

section \<open>GroundwaterAnalysisService (monitoring/services.py)\<close>

text \<open>
  Integer operands of a float operation are converted first (\<open>float_of_int\<close>); the
  integers that occur are small literals, list lengths and sums of day counts, all far
  inside the float range. A float literal is the rounding of its decimal value.
\<close>

record recharge_result =
  estimated_recharge :: "pyfloat option"
  recharge_rate :: "pyfloat option"

record storage_result =
  current_storage :: "pyfloat option"
  available_storage :: "pyfloat option"
  storage_percentage :: "pyfloat option"

record trend_result =
  trend :: string
  trend_magnitude :: pyfloat

subsection \<open>calculate_recharge\<close>

text \<open>
  The loop \<^verbatim>\<open>for i in range(1, len(sorted_levels))\<close> visits the consecutive pairs
  \<^verbatim>\<open>(sorted_levels[i-1], sorted_levels[i])\<close> from left to right and carries
  \<^verbatim>\<open>(total_rise, rise_periods)\<close>.
\<close>

fun rise_loop :: "WaterLevel list \<Rightarrow> pyfloat \<times> nat \<Rightarrow> pyfloat \<times> nat" where
  "rise_loop (p # q # rest) (total_rise, rise_periods) =
     (let depth_change = fsub (depth p) (depth q)
      in rise_loop (q # rest)
           (if flt (Finite 0) depth_change
            then (fadd total_rise depth_change, rise_periods + 1)
            else (total_rise, rise_periods)))"
| "rise_loop [p] acc = acc"
| "rise_loop [] acc = acc"

definition calculate_recharge :: "WaterLevel list \<Rightarrow> DWLRStation \<Rightarrow> py_error + recharge_result" where
  "calculate_recharge water_levels stn =
     (if length water_levels < 2
      then Inr \<lparr>estimated_recharge = None, recharge_rate = None\<rparr>
      else
        let sorted_levels = sort_key timestamp water_levels;
            (total_rise, rise_periods) = rise_loop sorted_levels (Finite 0, 0);
            specific_yield = fl 0.15;
            est = (if rise_periods > 0 then fmul total_rise specific_yield else Finite 0)
        in if sorted_levels \<noteq> []
           then
             (case py_truediv
                     (float_of_int (days_between (timestamp (last sorted_levels))
                                                 (timestamp (hd sorted_levels))))
                     (fl 365.25) of
                Inl e \<Rightarrow> Inl e
              | Inr time_span_years \<Rightarrow>
                  if flt (Finite 0) time_span_years
                  then (case py_truediv est time_span_years of
                          Inl e \<Rightarrow> Inl e
                        | Inr q \<Rightarrow>
                            Inr \<lparr>estimated_recharge = Some est,
                                 recharge_rate = Some (fmul q (float_of_int 1000))\<rparr>)
                  else Inr \<lparr>estimated_recharge = Some est, recharge_rate = Some (Finite 0)\<rparr>)
           else Inr \<lparr>estimated_recharge = Some est, recharge_rate = Some (Finite 0)\<rparr>)"

subsection \<open>calculate_storage\<close>

definition calculate_storage :: "DWLRStation \<Rightarrow> pyfloat \<Rightarrow> py_error + storage_result" where
  "calculate_storage stn current_depth =
     (if \<not> truthy_opt (well_depth stn)
      then Inr \<lparr>current_storage = None, available_storage = None, storage_percentage = None\<rparr>
      else
        let wd = the (well_depth stn);
            water_column = fsub wd current_depth;
            water_column = (if flt water_column (Finite 0) then Finite 0 else water_column);
            specific_yield = fl 0.15;
            cur = fmul water_column specific_yield;
            max_storage = fmul wd specific_yield;
            avail = fsub max_storage cur
        in if flt (Finite 0) max_storage
           then (case py_truediv cur max_storage of
                   Inl e \<Rightarrow> Inl e
                 | Inr q \<Rightarrow>
                     Inr \<lparr>current_storage = Some cur, available_storage = Some avail,
                          storage_percentage = Some (fmul q (float_of_int 100))\<rparr>)
           else Inr \<lparr>current_storage = Some cur, available_storage = Some avail,
                      storage_percentage = Some (Finite 0)\<rparr>)"

subsection \<open>analyze_trend\<close>

text \<open>
  The builtin \<^verbatim>\<open>sum\<close> on a list of floats is the parameter \<open>float_sum\<close>, since
  its rounding depends on the interpreter's version; \<open>py_sum\<close> is one instance.
\<close>

definition analyze_trend ::
    "(pyfloat list \<Rightarrow> pyfloat) \<Rightarrow> WaterLevel list \<Rightarrow> py_error + trend_result" where
  "analyze_trend float_sum water_levels =
     (if length water_levels < 2
      then Inr \<lparr>trend = ''stable'', trend_magnitude = Finite 0\<rparr>
      else
        let sorted_levels = sort_key timestamp water_levels;
            n = int (length sorted_levels);
            depths = map depth sorted_levels;
            times = map (\<lambda>wl. days_between (timestamp wl) (timestamp (hd sorted_levels)))
                      sorted_levels;
            sum_t = sum_list times;
            sum_d = float_sum depths;
            sum_td = float_sum (map (\<lambda>(t, d). fmul (float_of_int t) d) (zip times depths));
            sum_t2 = sum_list (map (\<lambda>t. t * t) times)
        in case (if n * sum_t2 - sum_t * sum_t \<noteq> 0
                 then py_truediv
                        (fsub (fmul (float_of_int n) sum_td) (fmul (float_of_int sum_t) sum_d))
                        (float_of_int (n * sum_t2 - sum_t * sum_t))
                 else Inr (Finite 0)) of
             Inl e \<Rightarrow> Inl e
           | Inr slope \<Rightarrow>
               let magnitude = fabs (fmul slope (fl 365.25))
               in Inr \<lparr>trend = (if flt magnitude (fl 0.1) then ''stable''
                                 else if flt slope (Finite 0) then ''rising'' else ''falling''),
                        trend_magnitude = magnitude\<rparr>)"

subsection \<open>determine_alert_status\<close>

definition determine_alert_status ::
    "pyfloat option \<Rightarrow> string \<Rightarrow> pyfloat \<Rightarrow> pyfloat option \<Rightarrow> py_error + string" where
  "determine_alert_status storage_pct trend_arg current_depth wdepth =
     (case storage_pct of
        None \<Rightarrow>
          (if truthy_opt wdepth
           then (case py_truediv current_depth (the wdepth) of
                   Inl e \<Rightarrow> Inl e
                 | Inr q \<Rightarrow>
                     let depth_percentage = fmul q (float_of_int 100)
                     in if flt (float_of_int 80) depth_percentage then Inr ''critical''
                        else if flt (float_of_int 60) depth_percentage then Inr ''warning''
                        else Inr ''normal'')
           else Inr ''normal'')
      | Some sp \<Rightarrow>
          (if flt sp (float_of_int 20) then Inr ''critical''
           else if flt sp (float_of_int 40) then Inr ''warning''
           else if flt (float_of_int 70) sp then Inr ''good''
           else Inr ''normal''))"

section \<open>CGWBAPIService.sync_water_levels (monitoring/services.py)\<close>

text \<open>
  The values an incoming dictionary can hold: \<^verbatim>\<open>None\<close>, a string, an integer, a
  float, or any other object (true, not a string, and rejected by \<^verbatim>\<open>float\<close>).
\<close>

datatype pyval = PNone | PStr string | PInt int | PFloat pyfloat | PObj

definition truthy :: "pyval \<Rightarrow> bool" where
  "truthy v =
     (case v of
        PNone \<Rightarrow> False
      | PStr s \<Rightarrow> s \<noteq> []
      | PInt k \<Rightarrow> k \<noteq> 0
      | PFloat x \<Rightarrow> \<not> is_zero x
      | PObj \<Rightarrow> True)"

definition py_or :: "pyval \<Rightarrow> pyval \<Rightarrow> pyval" where
  "py_or a b = (if truthy a then a else b)"

definition dict_get :: "(string \<rightharpoonup> pyval) \<Rightarrow> string \<Rightarrow> pyval" where
  "dict_get d k = (case d k of None \<Rightarrow> PNone | Some v \<Rightarrow> v)"

text \<open>
  The standard library and the clock are parameters: each parser returns \<open>None\<close> where the
  Python function raises, and \<open>now k\<close> is what the \<open>k\<close>-th call of
  \<^verbatim>\<open>timezone.now()\<close> in this run returns.
\<close>

record py_library =
  fromisoformat :: "string \<Rightarrow> int option"
  strptime :: "string \<Rightarrow> int option"
  float_of_str :: "string \<Rightarrow> pyfloat option"
  now :: "nat \<Rightarrow> int"

definition replace_Z :: "string \<Rightarrow> string" where
  "replace_Z s = concat (map (\<lambda>c. if c = CHR ''Z'' then ''+00:00'' else [c]) s)"

text \<open>
  The timestamp of a record: a string goes through \<^verbatim>\<open>fromisoformat\<close> and, when that
  raises anything, through \<^verbatim>\<open>strptime\<close> on the original string, whose error is not
  caught; anything else takes the clock. The second component counts the clock calls.
\<close>

definition parse_timestamp :: "py_library \<Rightarrow> nat \<Rightarrow> pyval \<Rightarrow> py_error + (int \<times> nat)" where
  "parse_timestamp lib tick v =
     (case v of
        PStr s \<Rightarrow>
          (case fromisoformat lib (replace_Z s) of
             Some t \<Rightarrow> Inr (t, tick)
           | None \<Rightarrow>
               (case strptime lib s of
                  Some t \<Rightarrow> Inr (t, tick)
                | None \<Rightarrow> Inl ValueError))
      | _ \<Rightarrow> Inr (now lib tick, Suc tick))"

text \<open>
  \<^verbatim>\<open>float(v)\<close>: a float is returned as it is, an integer is rounded and raises when
  it is beyond the float range, a string is parsed, anything else is a type error.
\<close>

definition py_float :: "py_library \<Rightarrow> pyval \<Rightarrow> py_error + pyfloat" where
  "py_float lib v =
     (case v of
        PFloat x \<Rightarrow> Inr x
      | PInt k \<Rightarrow>
          (case float_of_int k of Finite y \<Rightarrow> Inr (Finite y) | _ \<Rightarrow> Inl OverflowError)
      | PStr s \<Rightarrow> (case float_of_str lib s of Some x \<Rightarrow> Inr x | None \<Rightarrow> Inl ValueError)
      | _ \<Rightarrow> Inl TypeError)"

text \<open>
  Lines 179 to 193 of the loop body: the timestamp, the depth and the water level
  elevation of one incoming record.
\<close>

definition decode_record ::
    "py_library \<Rightarrow> DWLRStation \<Rightarrow> nat \<Rightarrow> (string \<rightharpoonup> pyval) \<Rightarrow>
     py_error + ((int \<times> pyfloat \<times> pyfloat option) \<times> nat)" where
  "decode_record lib stn tick data =
     (let timestamp_str = py_or (py_or (dict_get data ''timestamp'') (dict_get data ''date''))
                            (dict_get data ''datetime'')
      in case parse_timestamp lib tick timestamp_str of
           Inl e \<Rightarrow> Inl e
         | Inr (ts, tick') \<Rightarrow>
             (case py_float lib (py_or (py_or (dict_get data ''depth'')
                                           (dict_get data ''water_level'')) (PInt 0)) of
                Inl e \<Rightarrow> Inl e
              | Inr d \<Rightarrow>
                  Inr ((ts, d,
                        if truthy_opt (elevation stn)
                        then Some (fsub (the (elevation stn)) d) else None), tick')))"

definition same_key :: "string \<Rightarrow> int \<Rightarrow> WaterLevel \<Rightarrow> bool" where
  "same_key sc ts r = (station r = sc \<and> timestamp r = ts)"

text \<open>
  Modelled from the spec: Django's \<^verbatim>\<open>QuerySet.update_or_create\<close> is library code, not
  part of this repository. It is modelled as the specification describes it and as Django
  documents it: the lookup by station and timestamp either finds no row, and a row with
  the lookup values and the defaults is created; or finds one row, whose default columns
  are overwritten; or finds several and raises. The flag says whether a row was created.
\<close>

definition update_or_create ::
    "WaterLevel list \<Rightarrow> string \<Rightarrow> int \<Rightarrow> pyfloat \<Rightarrow> pyfloat option \<Rightarrow> string \<Rightarrow>
     py_error + (WaterLevel list \<times> bool)" where
  "update_or_create rows sc ts d wle src =
     (case filter (same_key sc ts) rows of
        [] \<Rightarrow>
          Inr (rows @ [\<lparr>station = sc, timestamp = ts, depth = d,
                         water_level_elevation = wle, data_source = src\<rparr>], True)
      | [r] \<Rightarrow>
          Inr (map (\<lambda>x. if same_key sc ts x
                         then x\<lparr>depth := d, water_level_elevation := wle, data_source := src\<rparr>
                         else x) rows, False)
      | _ \<Rightarrow> Inl MultipleObjectsReturned)"

text \<open>
  The \<^verbatim>\<open>for data in water_level_data\<close> loop, carrying the table rows, the count and
  the number of clock calls; an exception ends the loop.
\<close>

fun sync_loop ::
    "py_library \<Rightarrow> DWLRStation \<Rightarrow> (string \<rightharpoonup> pyval) list \<Rightarrow> WaterLevel list \<times> nat \<times> nat \<Rightarrow>
     py_error + (WaterLevel list \<times> nat \<times> nat)" where
  "sync_loop lib stn [] acc = Inr acc"
| "sync_loop lib stn (data # rest) (rows, count, tick) =
     (case decode_record lib stn tick data of
        Inl e \<Rightarrow> Inl e
      | Inr ((ts, d, wle), tick') \<Rightarrow>
          (case update_or_create rows (station_code stn) ts d wle ''CGWB_API'' of
             Inl e \<Rightarrow> Inl e
           | Inr (rows', created) \<Rightarrow>
               sync_loop lib stn rest
                 (rows', if created then count + 1 else count, tick')))"

record database =
  water_level_rows :: "WaterLevel list"
  station_rows :: "string \<rightharpoonup> DWLRStation"

text \<open>
  The whole call. The loop and the station update run inside
  \<^verbatim>\<open>transaction.atomic()\<close>: on an exception the database is as it was before the call.
\<close>

definition sync_water_levels ::
    "py_library \<Rightarrow> database \<Rightarrow> DWLRStation \<Rightarrow> (string \<rightharpoonup> pyval) list \<Rightarrow>
     database \<times> (py_error + nat)" where
  "sync_water_levels lib db stn water_level_data =
     (case sync_loop lib stn water_level_data (water_level_rows db, 0, 0) of
        Inl e \<Rightarrow> (db, Inl e)
      | Inr (rows', count, tick') \<Rightarrow>
          (\<lparr>water_level_rows = rows',
            station_rows = (station_rows db)
              (station_code stn \<mapsto> stn\<lparr>last_data_update := Some (now lib tick')\<rparr>)\<rparr>,
           Inr count))"

text \<open>The uniqueness constraint of \<^verbatim>\<open>WaterLevel.Meta.unique_together\<close>.\<close>

definition reading_keys :: "WaterLevel list \<Rightarrow> (string \<times> int) list" where
  "reading_keys rows = map (\<lambda>r. (station r, timestamp r)) rows"

definition unique_readings :: "WaterLevel list \<Rightarrow> bool" where
  "unique_readings rows = distinct (reading_keys rows)"

section \<open>Quantities the properties are stated with\<close>

text \<open>
  The positive depth decreases between consecutive readings of a list, in order: the
  difference previous minus next, kept only when strictly positive.
\<close>

definition positive_decreases :: "WaterLevel list \<Rightarrow> pyfloat list" where
  "positive_decreases xs =
     filter (\<lambda>c. flt (Finite 0) c) (map (\<lambda>(p, q). fsub (depth p) (depth q)) (zip xs (tl xs)))"

text \<open>
  The points of the regression: (day offset from the first reading, depth) for the
  readings sorted by timestamp.
\<close>

definition day_offsets :: "WaterLevel list \<Rightarrow> int list" where
  "day_offsets wls =
     (let sorted_levels = sort_key timestamp wls
      in map (\<lambda>wl. days_between (timestamp wl) (timestamp (hd sorted_levels))) sorted_levels)"

definition day_depth_points :: "WaterLevel list \<Rightarrow> (int \<times> pyfloat) list" where
  "day_depth_points wls =
     (let sorted_levels = sort_key timestamp wls
      in map (\<lambda>wl. (days_between (timestamp wl) (timestamp (hd sorted_levels)), depth wl))
           sorted_levels)"

definition trend_denominator :: "WaterLevel list \<Rightarrow> int" where
  "trend_denominator wls =
     (let times = day_offsets wls
      in int (length times) * sum_list (map (\<lambda>t. t * t) times)
         - sum_list times * sum_list times)"

text \<open>
  What \<open>analyze_trend\<close> returns for a slope: the magnitude and the bucket.
\<close>

definition bucket :: "pyfloat \<Rightarrow> trend_result" where
  "bucket slope =
     \<lparr>trend = (if flt (fabs (fmul slope (fl 365.25))) (fl 0.1) then ''stable''
                else if flt slope (Finite 0) then ''rising'' else ''falling''),
      trend_magnitude = fabs (fmul slope (fl 365.25))\<rparr>"

text \<open>
  The ordinary least-squares slope of points \<open>(t, d)\<close> by the closed form of the normal
  equations, \<^verbatim>\<open>(n * sum_td - sum_t * sum_d) / (n * sum_t2 - sum_t * sum_t)\<close>,
  evaluated in float arithmetic with the integer sums exact and the float sums taken by
  \<open>float_sum\<close>, and 0 where the denominator is 0.
\<close>

definition least_squares_slope ::
    "(pyfloat list \<Rightarrow> pyfloat) \<Rightarrow> (int \<times> pyfloat) list \<Rightarrow> pyfloat" where
  "least_squares_slope float_sum pts =
     (let n = int (length pts);
          st = sum_list (map fst pts);
          st2 = sum_list (map (\<lambda>(t, d). t * t) pts);
          sd = float_sum (map snd pts);
          std = float_sum (map (\<lambda>(t, d). fmul (float_of_int t) d) pts)
      in if n * st2 - st * st = 0 then Finite 0
         else fdiv (fsub (fmul (float_of_int n) std) (fmul (float_of_int st) sd))
                (float_of_int (n * st2 - st * st)))"

text \<open>
  The same closed form in exact arithmetic, and least squares as the textbook states it:
  the sum of the products of the deviations from the two means, divided by the sum of the
  squared deviations of \<open>t\<close> from its mean.
\<close>

definition closed_form_slope :: "(real \<times> real) list \<Rightarrow> real" where
  "closed_form_slope pts =
     (real (length pts) * sum_list (map (\<lambda>(t, d). t * d) pts)
        - sum_list (map fst pts) * sum_list (map snd pts))
     / (real (length pts) * sum_list (map (\<lambda>(t, d). t * t) pts)
        - sum_list (map fst pts) * sum_list (map fst pts))"

definition mean_of :: "real list \<Rightarrow> real" where
  "mean_of xs = sum_list xs / real (length xs)"

definition ols_sxx :: "(real \<times> real) list \<Rightarrow> real" where
  "ols_sxx pts =
     (let tbar = mean_of (map fst pts)
      in sum_list (map (\<lambda>(t, d). (t - tbar) * (t - tbar)) pts))"

definition ols_sxy :: "(real \<times> real) list \<Rightarrow> real" where
  "ols_sxy pts =
     (let tbar = mean_of (map fst pts); dbar = mean_of (map snd pts)
      in sum_list (map (\<lambda>(t, d). (t - tbar) * (d - dbar)) pts))"

definition ols_slope :: "(real \<times> real) list \<Rightarrow> real" where
  "ols_slope pts = ols_sxy pts / ols_sxx pts"

text \<open>
  The table as a map from (station, timestamp) to the reading, the records of a batch as
  the loop decodes them, and what one record does to the map.
\<close>

definition row_map :: "WaterLevel list \<Rightarrow> (string \<times> int) \<rightharpoonup> WaterLevel" where
  "row_map rows = map_of (map (\<lambda>r. ((station r, timestamp r), r)) rows)"

fun decode_batch ::
    "py_library \<Rightarrow> DWLRStation \<Rightarrow> (string \<rightharpoonup> pyval) list \<Rightarrow> nat \<Rightarrow>
     py_error + ((int \<times> pyfloat \<times> pyfloat option) list \<times> nat)" where
  "decode_batch lib stn [] tick = Inr ([], tick)"
| "decode_batch lib stn (data # rest) tick =
     (case decode_record lib stn tick data of
        Inl e \<Rightarrow> Inl e
      | Inr (r, tick') \<Rightarrow>
          (case decode_batch lib stn rest tick' of
             Inl e \<Rightarrow> Inl e
           | Inr (rs, tick'') \<Rightarrow> Inr (r # rs, tick'')))"

definition store_record ::
    "string \<Rightarrow> ((string \<times> int) \<rightharpoonup> WaterLevel) \<Rightarrow> int \<times> pyfloat \<times> pyfloat option \<Rightarrow>
     ((string \<times> int) \<rightharpoonup> WaterLevel)" where
  "store_record sc m r =
     (case r of (ts, d, wle) \<Rightarrow>
        m((sc, ts) \<mapsto> \<lparr>station = sc, timestamp = ts, depth = d,
                        water_level_elevation = wle, data_source = ''CGWB_API''\<rparr>))"

text \<open>Sample data for the concrete instances below.\<close>

abbreviation (input) reading :: "int \<Rightarrow> real \<Rightarrow> WaterLevel" where
  "reading t d \<equiv>
     \<lparr>station = ''W1'', timestamp = t, depth = Finite d, water_level_elevation = None,
      data_source = ''CGWB_API''\<rparr>"

abbreviation (input) well :: "pyfloat option \<Rightarrow> DWLRStation" where
  "well wd \<equiv>
     \<lparr>station_code = ''W1'', well_depth = wd, elevation = None, last_data_update = None\<rparr>"

abbreviation (input) sample_library :: py_library where
  "sample_library \<equiv>
     \<lparr>fromisoformat = (\<lambda>s. if s = ''2024-01-01'' then Some 0
                            else if s = ''2024-01-02'' then Some 86400000000 else None),
      strptime = (\<lambda>s. None), float_of_str = (\<lambda>s. None), now = (\<lambda>k. 172800000000)\<rparr>"

section \<open>Facts about float arithmetic\<close>

lemma pow2_powr: "pow2 q = 2 powr real_of_int q"
  by (simp add: pow2_def powr_real_of_int field_simps)

lemma pow2_pos [simp]: "0 < pow2 q"
  by (simp add: pow2_powr)

lemma pow2_nonzero [simp]: "pow2 q \<noteq> 0"
  using pow2_pos [of q] by linarith

lemma pow2_add: "pow2 (a + b) = pow2 a * pow2 b"
  by (simp add: pow2_powr powr_add)

lemma binade_eq:
  assumes "pow2 e \<le> \<bar>x\<bar>" and "\<bar>x\<bar> < pow2 (e + 1)"
  shows "binade x = e"
proof -
  have "0 < pow2 e" by simp
  with assms(1) have "0 < \<bar>x\<bar>" by linarith
  then show ?thesis
    unfolding binade_def using assms
    by (simp add: floor_log_eq_powr_iff pow2_powr)
qed

lemma binade_bounds:
  assumes "x \<noteq> 0"
  shows "pow2 (binade x) \<le> \<bar>x\<bar>" and "\<bar>x\<bar> < pow2 (binade x + 1)"
proof -
  have p: "0 < \<bar>x\<bar>" using assms by simp
  have "\<lfloor>log 2 \<bar>x\<bar>\<rfloor> = binade x" by (simp add: binade_def)
  then have "2 powr real_of_int (binade x) \<le> \<bar>x\<bar> \<and> \<bar>x\<bar> < 2 powr real_of_int (binade x + 1)"
    using floor_log_eq_powr_iff [OF p, of 2 "binade x"] by simp
  then show "pow2 (binade x) \<le> \<bar>x\<bar>" and "\<bar>x\<bar> < pow2 (binade x + 1)"
    by (simp_all add: pow2_powr)
qed

lemma rnd_0 [simp]: "rnd 0 = 0"
  by (simp add: rnd_def)

lemma huge_pos [simp]: "0 < huge"
  by (simp add: huge_def)

lemma small_less_huge: "\<bar>y\<bar> \<le> 2 ^ 64 \<Longrightarrow> \<bar>y\<bar> < huge"
proof -
  assume "\<bar>y\<bar> \<le> 2 ^ 64"
  moreover have "(2::real) ^ 64 < 2 ^ 1024" by (rule power_strict_increasing) simp_all
  ultimately show ?thesis unfolding huge_def by linarith
qed

lemma huge_signs [simp]: "\<not> huge \<le> 0" "\<not> 0 \<le> - huge"
  using huge_pos by linarith+

lemma fl_0 [simp]: "fl 0 = Finite 0"
  by (simp add: fl_def)

lemma rnd_at:
  assumes "pow2 e \<le> \<bar>x\<bar>" and "\<bar>x\<bar> < pow2 (e + 1)"
  shows "rnd x = of_int (round_even (x / pow2 (max e (- 1022) - 52))) * pow2 (max e (- 1022) - 52)"
proof -
  have "0 < pow2 e" by simp
  with assms(1) have "0 < \<bar>x\<bar>" by linarith
  then have "x \<noteq> 0" by auto
  then show ?thesis by (simp add: rnd_def Let_def binade_eq [OF assms])
qed

lemma fl_eval:
  assumes "pow2 e \<le> \<bar>x\<bar>" and "\<bar>x\<bar> < pow2 (e + 1)"
    and "of_int (round_even (x / pow2 (max e (- 1022) - 52))) * pow2 (max e (- 1022) - 52) = y"
    and "\<bar>y\<bar> \<le> 2 ^ 64"
  shows "fl x = Finite y"
proof -
  have "rnd x = y" using rnd_at [OF assms(1,2)] assms(3) by simp
  moreover have "\<bar>y\<bar> < huge" by (rule small_less_huge [OF assms(4)])
  ultimately show ?thesis by (auto simp add: fl_def Let_def)
qed

lemma round_even_bounds: "\<lfloor>y\<rfloor> \<le> round_even y" "round_even y \<le> \<lfloor>y\<rfloor> + 1"
  by (simp_all add: round_even_def Let_def)

lemma rnd_nonzero:
  assumes "1 \<le> \<bar>x\<bar>"
  shows "rnd x \<noteq> 0"
proof -
  have x0: "x \<noteq> 0" using assms by auto
  let ?e = "binade x"
  have lo: "pow2 ?e \<le> \<bar>x\<bar>" and hi: "\<bar>x\<bar> < pow2 (?e + 1)"
    using binade_bounds [OF x0] by simp_all
  have "1 < pow2 (?e + 1)" using assms hi by linarith
  then have "2 powr 0 < 2 powr real_of_int (?e + 1)" by (simp add: pow2_powr)
  then have "0 < real_of_int (?e + 1)" by (simp only: powr_less_cancel_iff one_less_numeral_iff semiring_norm)
  then have e0: "0 \<le> ?e" by linarith
  let ?q = "max ?e (- 1022) - 52"
  have q: "?q = ?e - 52" using e0 by simp
  have "pow2 ?e = pow2 ?q * pow2 52" unfolding q using pow2_add [of "?e - 52" 52] by simp
  with lo have "pow2 52 * pow2 ?q \<le> \<bar>x\<bar>" by (simp add: mult.commute)
  then have "pow2 52 \<le> \<bar>x\<bar> / pow2 ?q" by (simp add: pos_le_divide_eq)
  then have big: "2 \<le> \<bar>x\<bar> / pow2 ?q" by (simp add: pow2_def)
  have "round_even (x / pow2 ?q) \<noteq> 0"
  proof (cases "0 \<le> x")
    case True
    then have "\<bar>x\<bar> = x" by simp
    with big have "2 \<le> x / pow2 ?q" by simp
    then have "2 \<le> \<lfloor>x / pow2 ?q\<rfloor>" by (simp add: le_floor_iff)
    with round_even_bounds(1) [of "x / pow2 ?q"] show ?thesis by linarith
  next
    case False
    then have "\<bar>x\<bar> = - x" by simp
    with big have "2 \<le> - (x / pow2 ?q)" by simp
    then have "x / pow2 ?q \<le> - 2" by simp
    then have "\<lfloor>x / pow2 ?q\<rfloor> \<le> - 2" by (simp add: floor_le_iff)
    with round_even_bounds(2) [of "x / pow2 ?q"] show ?thesis by linarith
  qed
  then show ?thesis using x0 by (simp add: rnd_def Let_def)
qed

lemma float_of_int_nonzero: "k \<noteq> 0 \<Longrightarrow> \<not> is_zero (float_of_int k)"
proof -
  assume "k \<noteq> 0"
  then have "1 \<le> \<bar>real_of_int k\<bar>" by (metis int_one_le_iff_zero_less of_int_1_le_iff of_int_abs zero_less_abs_iff)
  from rnd_nonzero [OF this] show ?thesis
    by (simp add: is_zero_def float_of_int_def fl_def Let_def)
qed

lemma flt_zero_not_zero: "flt (Finite 0) a \<Longrightarrow> \<not> is_zero a"
  by (cases a) (simp_all add: is_zero_def)



lemma fl_365: "fl 365.25 = Finite 365.25"
  by (rule fl_eval [where e = 8]) (simp_all add: pow2_def round_even_def Let_def)

lemma fl_01: "fl 0.1 = Finite (3602879701896397 / 2 ^ 55)"
  by (rule fl_eval [where e = "- 4"]) (simp_all add: pow2_def round_even_def Let_def)

lemma fl_015: "fl 0.15 = Finite (5404319552844595 / 2 ^ 55)"
  by (rule fl_eval [where e = "- 3"]) (simp_all add: pow2_def round_even_def Let_def)

lemma fl_15c: "fl (15 * (5404319552844595 / 2 ^ 55)) = Finite 2.25"
  by (rule fl_eval [where e = 1]) (simp_all add: pow2_def round_even_def Let_def)

lemma fl_10c: "fl (10 * (5404319552844595 / 2 ^ 55)) = Finite 1.5"
  by (rule fl_eval [where e = 0]) (simp_all add: pow2_def round_even_def Let_def)

lemma fl_m075: "fl (- 0.75) = Finite (- 0.75)"
  by (rule fl_eval [where e = "- 1"]) (simp_all add: pow2_def round_even_def Let_def)


section \<open>Rounding of the constants\<close>

lemma foi_0 [simp]: "float_of_int 0 = Finite 0"
  by (simp add: float_of_int_def)

lemma foi_1: "float_of_int 1 = Finite 1"
  unfolding float_of_int_def
  by (simp, rule fl_eval [where e = 0]) (simp_all add: pow2_def round_even_def Let_def)

lemma foi_20: "float_of_int 20 = Finite 20"
  unfolding float_of_int_def
  by (simp, rule fl_eval [where e = 4]) (simp_all add: pow2_def round_even_def Let_def)

lemma foi_40: "float_of_int 40 = Finite 40"
  unfolding float_of_int_def
  by (simp, rule fl_eval [where e = 5]) (simp_all add: pow2_def round_even_def Let_def)

lemma foi_60: "float_of_int 60 = Finite 60"
  unfolding float_of_int_def
  by (simp, rule fl_eval [where e = 5]) (simp_all add: pow2_def round_even_def Let_def)

lemma foi_70: "float_of_int 70 = Finite 70"
  unfolding float_of_int_def
  by (simp, rule fl_eval [where e = 6]) (simp_all add: pow2_def round_even_def Let_def)

lemma foi_80: "float_of_int 80 = Finite 80"
  unfolding float_of_int_def
  by (simp, rule fl_eval [where e = 6]) (simp_all add: pow2_def round_even_def Let_def)

lemma foi_100: "float_of_int 100 = Finite 100"
  unfolding float_of_int_def
  by (simp, rule fl_eval [where e = 6]) (simp_all add: pow2_def round_even_def Let_def)

lemma fl_365_n [simp]: "fl (1461 / 4) = Finite (1461 / 4)"
  using fl_365 by simp

lemma fl_01_n [simp]: "fl (1 / 10) = Finite (3602879701896397 / 2 ^ 55)"
  using fl_01 by simp

lemma fl_015_n [simp]: "fl (3 / 20) = Finite (5404319552844595 / 2 ^ 55)"
  using fl_015 by simp

lemma not_zero_365: "\<not> is_zero (fl 365.25)"
  by (simp add: is_zero_def)

section \<open>Properties of the analysis routines\<close>

subsection \<open>Recharge\<close>

lemma positive_decreases_Cons2:
  "positive_decreases (p # q # rest) =
     (if flt (Finite 0) (fsub (depth p) (depth q)) then [fsub (depth p) (depth q)] else [])
     @ positive_decreases (q # rest)"
  by (simp add: positive_decreases_def)

lemma positive_decreases_short [simp]:
  "positive_decreases [] = []" "positive_decreases [p] = []"
  by (simp_all add: positive_decreases_def)

lemma rise_loop_eq:
  "rise_loop xs (tr, rp) =
     (foldl fadd tr (positive_decreases xs), rp + length (positive_decreases xs))"
proof (induction xs "(tr, rp)" arbitrary: tr rp rule: rise_loop.induct)
  case (1 p q rest total_rise rise_periods)
  then show ?case
    by (simp add: positive_decreases_Cons2 Let_def)
qed simp_all

lemma guarded_division: "flt (Finite 0) b \<Longrightarrow> py_truediv a b = Inr (fdiv a b)"
  by (simp add: py_truediv_def flt_zero_not_zero)

lemma calculate_recharge_total: "\<exists>r. calculate_recharge wls stn = Inr r"
  by (simp add: calculate_recharge_def Let_def py_truediv_def not_zero_365 flt_zero_not_zero
      split: prod.splits)

lemma calculate_recharge_est:
  assumes "2 \<le> length wls" and "calculate_recharge wls stn = Inr r"
  shows "estimated_recharge r =
           Some (if positive_decreases (sort_key timestamp wls) = [] then Finite 0
                 else fmul (py_sum (positive_decreases (sort_key timestamp wls))) (fl 0.15))"
  using assms
  by (auto simp add: calculate_recharge_def Let_def py_truediv_def rise_loop_eq py_sum_def
      not_zero_365 flt_zero_not_zero split: prod.splits if_splits)

lemma sum_nothing: "fmul (py_sum []) (fl 0.15) = Finite 0"
  by (simp add: py_sum_def)


text \<open>
  C1: on a list of at least two readings \<open>calculate_recharge\<close> returns, without raising, an
  estimated recharge equal to the sum of the strictly positive depth decreases between
  consecutive readings of the list sorted by timestamp, multiplied by the constant 0.15.
  The differences, the sum (from left to right, in the order of the list) and the product
  are those of float arithmetic. When no consecutive pair shows a positive decrease the
  estimate is 0.
\<close>

theorem calculate_recharge_sum:
  assumes "2 \<le> length wls"
  shows "\<exists>r. calculate_recharge wls stn = Inr r \<and>
             estimated_recharge r =
               Some (fmul (py_sum (positive_decreases (sort_key timestamp wls))) (fl 0.15)) \<and>
             (positive_decreases (sort_key timestamp wls) = [] \<longrightarrow>
                estimated_recharge r = Some (Finite 0))"
proof -
  obtain r where r: "calculate_recharge wls stn = Inr r"
    using calculate_recharge_total by blast
  note e = calculate_recharge_est [OF assms r]
  show ?thesis
  proof (cases "positive_decreases (sort_key timestamp wls) = []")
    case True
    with r e sum_nothing show ?thesis by simp
  next
    case False
    with r e show ?thesis by simp
  qed
qed

lemma fl_4: "fl 4 = Finite 4"
  by (rule fl_eval [where e = 2]) (simp_all add: pow2_def round_even_def Let_def)

lemma fl_m2: "fl (- 2) = Finite (- 2)"
  by (rule fl_eval [where e = 1]) (simp_all add: pow2_def round_even_def Let_def)

lemma fl_4c: "fl (4 * (5404319552844595 / 2 ^ 55)) = Finite (5404319552844595 / 2 ^ 53)"
  by (rule fl_eval [where e = "- 1"]) (simp_all add: pow2_def round_even_def Let_def)

theorem calculate_recharge_sum_witness:
  "\<exists>r. calculate_recharge [reading 172800000000 8, reading 0 10, reading 86400000000 12]
           (well (Some (Finite 50))) = Inr r \<and>
       estimated_recharge r = Some (Finite (5404319552844595 / 2 ^ 53))"
proof -
  let ?w = "[reading 172800000000 8, reading 0 10, reading 86400000000 12]"
  have p: "positive_decreases (sort_key timestamp ?w) = [Finite 4]"
    using fl_4 fl_m2 by (simp add: positive_decreases_def fsub_def)
  have s: "fmul (py_sum [Finite 4]) (fl 0.15) = Finite (5404319552844595 / 2 ^ 53)"
    using fl_4 fl_4c by (simp add: py_sum_def)
  have "2 \<le> length ?w" by simp
  from calculate_recharge_sum [OF this, of "well (Some (Finite 50))"] show ?thesis
    unfolding p s by simp
qed

subsection \<open>Storage\<close>

lemma fl_15: "fl 15 = Finite 15"
  by (rule fl_eval [where e = 3]) (simp_all add: pow2_def round_even_def Let_def)

lemma fl_15c_n: "fl (15 * 5404319552844595 / 2 ^ 55) = Finite (9 / 4)"
  using fl_15c by simp

lemma fl_32: "fl (3 / 2) = Finite (3 / 2)"
  by (rule fl_eval [where e = 0]) (simp_all add: pow2_def round_even_def Let_def)

lemma fl_150: "fl 150 = Finite 150"
  by (rule fl_eval [where e = 7]) (simp_all add: pow2_def round_even_def Let_def)

lemmas storage_roundings =
  fl_15 [simplified] fl_15c [simplified] fl_10c [simplified] fl_m075 [simplified]
  fl_32 [simplified] fl_150 [simplified]

text \<open>
  C3 does not hold of the code. Only the water column is clamped, and only from below:
  with a well depth of 10 and a current depth of -5 (water standing above ground level)
  the storage percentage returned is 150.
\<close>

theorem calculate_storage_above_100:
  "calculate_storage (well (Some (Finite 10))) (Finite (- 5)) =
     Inr \<lparr>current_storage = Some (Finite 2.25), available_storage = Some (Finite (- 0.75)),
           storage_percentage = Some (Finite 150)\<rparr>"
  by (simp add: calculate_storage_def Let_def truthy_opt_def is_zero_def py_truediv_def
      fsub_def foi_100 storage_roundings)


subsection \<open>Trend\<close>

lemma zip_points: "zip (map f s) (map g s) = map (\<lambda>x. (f x, g x)) s"
  by (induction s) simp_all

lemma points_parts:
  "map fst (day_depth_points wls) = day_offsets wls"
  "map snd (day_depth_points wls) = map depth (sort_key timestamp wls)"
  "length (day_depth_points wls) = length wls"
  "length (day_offsets wls) = length wls"
  by (simp_all add: day_depth_points_def day_offsets_def Let_def comp_def)

lemma points_squares:
  "sum_list (map (\<lambda>(t, d). t * t) (day_depth_points wls)) =
     sum_list (map (\<lambda>t. t * t) (day_offsets wls))"
  by (simp add: day_depth_points_def day_offsets_def Let_def comp_def)

lemma points_zip:
  "zip (day_offsets wls) (map depth (sort_key timestamp wls)) = day_depth_points wls"
  by (simp add: day_depth_points_def day_offsets_def Let_def zip_points)

lemma slope_denominator:
  "least_squares_slope fsum (day_depth_points wls) =
     (if trend_denominator wls = 0 then Finite 0
      else fdiv (fsub (fmul (float_of_int (int (length wls)))
                         (fsum (map (\<lambda>(t, d). fmul (float_of_int t) d)
                                    (day_depth_points wls))))
                      (fmul (float_of_int (sum_list (day_offsets wls)))
                         (fsum (map depth (sort_key timestamp wls)))))
             (float_of_int (trend_denominator wls)))"
  unfolding least_squares_slope_def trend_denominator_def Let_def points_parts points_squares
  by (rule refl)

lemma analyze_trend_unfold:
  assumes "2 \<le> length wls"
  shows "analyze_trend fsum wls =
     (case (if trend_denominator wls \<noteq> 0
            then py_truediv
                   (fsub (fmul (float_of_int (int (length wls)))
                            (fsum (map (\<lambda>(t, d). fmul (float_of_int t) d)
                                       (day_depth_points wls))))
                         (fmul (float_of_int (sum_list (day_offsets wls)))
                            (fsum (map depth (sort_key timestamp wls)))))
                   (float_of_int (trend_denominator wls))
            else Inr (Finite 0)) of
        Inl e \<Rightarrow> Inl e
      | Inr slope \<Rightarrow> Inr (bucket slope))"
proof -
  have n: "\<not> length wls < 2" using assms by simp
  have "analyze_trend fsum wls =
     (let sorted_levels = sort_key timestamp wls;
          n = int (length sorted_levels);
          depths = map depth sorted_levels;
          times = day_offsets wls;
          sum_t = sum_list times;
          sum_d = fsum depths;
          sum_td = fsum (map (\<lambda>(t, d). fmul (float_of_int t) d) (zip times depths));
          sum_t2 = sum_list (map (\<lambda>t. t * t) times)
      in case (if n * sum_t2 - sum_t * sum_t \<noteq> 0
               then py_truediv
                      (fsub (fmul (float_of_int n) sum_td) (fmul (float_of_int sum_t) sum_d))
                      (float_of_int (n * sum_t2 - sum_t * sum_t))
               else Inr (Finite 0)) of
           Inl e \<Rightarrow> Inl e
         | Inr slope \<Rightarrow> Inr (bucket slope))"
    unfolding analyze_trend_def day_offsets_def bucket_def Let_def using n by simp
  then show ?thesis
    unfolding Let_def points_zip trend_denominator_def points_parts by simp
qed

lemma analyze_trend_slope:
  assumes "2 \<le> length wls"
  shows "analyze_trend fsum wls = Inr (bucket (least_squares_slope fsum (day_depth_points wls)))"
  unfolding analyze_trend_unfold [OF assms] slope_denominator
  by (simp add: py_truediv_def float_of_int_nonzero)

lemma analyze_trend_short:
  "length wls < 2 \<Longrightarrow>
   analyze_trend fsum wls = Inr \<lparr>trend = ''stable'', trend_magnitude = Finite 0\<rparr>"
  by (simp add: analyze_trend_def)

lemma bucket_zero: "bucket (Finite 0) = \<lparr>trend = ''stable'', trend_magnitude = Finite 0\<rparr>"
  by (simp add: bucket_def)

lemma analyze_trend_total: "\<exists>r. analyze_trend fsum wls = Inr r"
proof (cases "length wls < 2")
  case True
  then show ?thesis by (simp add: analyze_trend_short)
next
  case False
  then have "2 \<le> length wls" by simp
  then show ?thesis by (simp add: analyze_trend_slope)
qed

lemma analyze_trend_zero_den:
  "2 \<le> length wls \<Longrightarrow> trend_denominator wls = 0 \<Longrightarrow>
   analyze_trend fsum wls = Inr \<lparr>trend = ''stable'', trend_magnitude = Finite 0\<rparr>"
  by (simp add: analyze_trend_slope slope_denominator bucket_zero)

lemma const_sums:
  "\<forall>t \<in> set ts. t = (d::int) \<Longrightarrow>
   sum_list ts = int (length ts) * d \<and>
   sum_list (map (\<lambda>t. t * t) ts) = int (length ts) * (d * d)"
  by (induction ts) (simp_all add: algebra_simps)

lemma same_day_den:
  assumes "\<forall>t \<in> set (day_offsets wls). t = d"
  shows "trend_denominator wls = 0"
  using const_sums [OF assms] by (simp add: trend_denominator_def Let_def algebra_simps)













subsection \<open>The closed form in exact arithmetic\<close>

lemma centred_products:
  "sum_list (map (\<lambda>(t, d). (t - a) * (d - b)) pts) =
     sum_list (map (\<lambda>(t, d). t * d) pts) - a * sum_list (map snd pts)
       - b * sum_list (map fst pts) + real (length pts) * a * (b::real)"
  by (induction pts) (auto simp add: algebra_simps)

lemma centred_squares:
  "sum_list (map (\<lambda>(t, d). (t - a) * (t - a)) pts) =
     sum_list (map (\<lambda>(t, d). t * t) pts) - 2 * a * sum_list (map fst pts)
       + real (length pts) * a * (a::real)"
  by (induction pts) (auto simp add: algebra_simps)

lemma n_sxy:
  assumes "pts \<noteq> []"
  shows "real (length pts) * ols_sxy pts =
           real (length pts) * sum_list (map (\<lambda>(t, d). t * d) pts)
             - sum_list (map fst pts) * sum_list (map snd pts)"
proof -
  have n: "real (length pts) \<noteq> 0" using assms by simp
  show ?thesis
    unfolding ols_sxy_def mean_of_def Let_def centred_products
    using n by (simp add: field_simps)
qed

lemma n_sxx:
  assumes "pts \<noteq> []"
  shows "real (length pts) * ols_sxx pts =
           real (length pts) * sum_list (map (\<lambda>(t, d). t * t) pts)
             - sum_list (map fst pts) * sum_list (map fst pts)"
proof -
  have n: "real (length pts) \<noteq> 0" using assms by simp
  show ?thesis
    unfolding ols_sxx_def mean_of_def Let_def centred_squares
    using n by (simp add: field_simps)
qed

lemma closed_form_is_least_squares:
  assumes "pts \<noteq> []"
  shows "closed_form_slope pts = ols_slope pts"
proof -
  have n: "real (length pts) \<noteq> 0" using assms by simp
  have "closed_form_slope pts =
          (real (length pts) * ols_sxy pts) / (real (length pts) * ols_sxx pts)"
    unfolding closed_form_slope_def n_sxy [OF assms] n_sxx [OF assms] by (rule refl)
  also have "\<dots> = ols_slope pts" using n by (simp add: ols_slope_def)
  finally show ?thesis .
qed


subsection \<open>Overflow\<close>







text \<open>
  C9: \<open>analyze_trend\<close> is total and never raises: every list yields a result. On a list
  of at least two readings, a zero denominator \<open>n * sum_t2 - sum_t * sum_t\<close> gives the
  result stable with magnitude 0, and the denominator is zero whenever all readings have
  the same day offset.
\<close>

theorem analyze_trend_guarded:
  "(\<exists>r. analyze_trend fsum wls = Inr r) \<and>
   (2 \<le> length wls \<and> trend_denominator wls = 0 \<longrightarrow>
      analyze_trend fsum wls = Inr \<lparr>trend = ''stable'', trend_magnitude = Finite 0\<rparr>) \<and>
   (2 \<le> length wls \<and> (\<forall>t \<in> set (day_offsets wls). t = d) \<longrightarrow>
      trend_denominator wls = 0 \<and>
      analyze_trend fsum wls = Inr \<lparr>trend = ''stable'', trend_magnitude = Finite 0\<rparr>)"
  using analyze_trend_total [of fsum wls] analyze_trend_zero_den [of wls fsum]
    same_day_den [of wls d]
  by blast

theorem analyze_trend_guarded_witness:
  "day_offsets [reading 3600000000 12, reading 0 10, reading 7200000000 9] = [0, 0, 0] \<and>
   trend_denominator [reading 3600000000 12, reading 0 10, reading 7200000000 9] = 0 \<and>
   analyze_trend py_sum [reading 3600000000 12, reading 0 10, reading 7200000000 9] =
     Inr \<lparr>trend = ''stable'', trend_magnitude = Finite 0\<rparr>"
proof -
  let ?w = "[reading 3600000000 12, reading 0 10, reading 7200000000 9]"
  have o: "day_offsets ?w = [0, 0, 0]"
    by (simp add: day_offsets_def days_between_def Let_def)
  have "2 \<le> length ?w \<and> (\<forall>t \<in> set (day_offsets ?w). t = 0)"
    unfolding o by simp
  with analyze_trend_guarded [where wls = ?w and d = 0 and fsum = py_sum] o
  show ?thesis by blast
qed

subsection \<open>Short inputs and the other guards\<close>

lemma fl_09: "fl 0.9 = Finite (8106479329266893 / 2 ^ 53)"
  by (rule fl_eval [where e = "- 1"]) (simp_all add: pow2_def round_even_def Let_def)

lemma fl_90: "fl (8106479329266893 / 2 ^ 53 * 100) = Finite 90"
  by (rule fl_eval [where e = 6]) (simp_all add: pow2_def round_even_def Let_def)

lemmas alert_roundings = fl_09 [simplified] fl_90 [simplified]

text \<open>
  C5, as stated, does not hold in its last part: the fewer-than-two case is not the
  only edge case the routines handle. \<open>calculate_storage\<close> returns three nulls for a
  station without a well depth, whatever readings exist, and \<open>determine_alert_status\<close>
  falls back to the depth ratio when the storage percentage is null.
\<close>

theorem other_edge_cases_counterexample:
  "calculate_storage (well None) (Finite 5) =
     Inr \<lparr>current_storage = None, available_storage = None, storage_percentage = None\<rparr> \<and>
   calculate_storage (well (Some (Finite 0))) (Finite 5) =
     Inr \<lparr>current_storage = None, available_storage = None, storage_percentage = None\<rparr> \<and>
   determine_alert_status None ''stable'' (Finite 90) (Some (Finite 100)) = Inr ''critical''"
  by (simp add: calculate_storage_def determine_alert_status_def truthy_opt_def py_truediv_def
      is_zero_def foi_100 foi_80 alert_roundings)

text \<open>
  C5, amended: on a list of fewer than two readings \<open>calculate_recharge\<close> returns null for
  both the estimated recharge and the recharge rate, and \<open>analyze_trend\<close> returns stable
  with magnitude 0. This is not the only edge case handled: \<open>calculate_storage\<close> returns
  null for its three fields when the station's well depth is null or zero.
\<close>

theorem fewer_than_two_readings:
  "(length wls < 2 \<longrightarrow>
      calculate_recharge wls stn =
        Inr \<lparr>estimated_recharge = None, recharge_rate = None\<rparr> \<and>
      analyze_trend fsum wls = Inr \<lparr>trend = ''stable'', trend_magnitude = Finite 0\<rparr>) \<and>
   (well_depth stn = None \<or> well_depth stn = Some (Finite 0) \<longrightarrow>
      calculate_storage stn cd =
        Inr \<lparr>current_storage = None, available_storage = None, storage_percentage = None\<rparr>)"
  by (auto simp add: calculate_recharge_def analyze_trend_def calculate_storage_def
      truthy_opt_def is_zero_def)

theorem fewer_than_two_readings_witness:
  "calculate_recharge [reading 0 10] (well None) =
     Inr \<lparr>estimated_recharge = None, recharge_rate = None\<rparr> \<and>
   analyze_trend py_sum [reading 0 10] = Inr \<lparr>trend = ''stable'', trend_magnitude = Finite 0\<rparr> \<and>
   calculate_storage (well None) (Finite 10) =
     Inr \<lparr>current_storage = None, available_storage = None, storage_percentage = None\<rparr>"
  using fewer_than_two_readings
    [where wls = "[reading 0 10]" and stn = "well None" and cd = "Finite 10"
       and fsum = py_sum]
  by simp

subsection \<open>Alert status\<close>

text \<open>
  C4: for a defined storage percentage, \<open>determine_alert_status\<close> returns a label chosen by
  the storage percentage alone: critical below 20, warning from 20 up to (not including) 40,
  good above 70, and normal otherwise, whatever the other three arguments are.
\<close>

theorem determine_alert_status_thresholds:
  "determine_alert_status (Some sp) t cd wd =
     Inr (if flt sp (Finite 20) then ''critical''
          else if fle (Finite 20) sp \<and> flt sp (Finite 40) then ''warning''
          else if flt (Finite 70) sp then ''good''
          else ''normal'')"
  by (cases sp) (auto simp add: determine_alert_status_def foi_20 foi_40 foi_70)

theorem determine_alert_status_thresholds_witness:
  "determine_alert_status (Some (Finite 35)) ''falling'' (Finite 12) (Some (Finite 50)) =
     Inr ''warning'' \<and>
   determine_alert_status (Some (Finite 70)) ''falling'' (Finite 12) (Some (Finite 50)) =
     Inr ''normal'' \<and>
   determine_alert_status (Some NaN) ''falling'' (Finite 12) (Some (Finite 50)) =
     Inr ''normal''"
  using determine_alert_status_thresholds [of "Finite 35" "''falling''" "Finite 12" "Some (Finite 50)"]
    determine_alert_status_thresholds [of "Finite 70" "''falling''" "Finite 12" "Some (Finite 50)"]
    determine_alert_status_thresholds [of NaN "''falling''" "Finite 12" "Some (Finite 50)"]
  by simp

text \<open>
  C8: the trend argument of \<open>determine_alert_status\<close> has no influence on the label: two
  calls that agree on the other three arguments return the same result.
\<close>

theorem determine_alert_status_ignores_trend:
  "determine_alert_status sp t1 cd wd = determine_alert_status sp t2 cd wd"
  by (simp add: determine_alert_status_def)

theorem determine_alert_status_ignores_trend_witness:
  "determine_alert_status None ''rising'' (Finite 90) (Some (Finite 100)) =
   determine_alert_status None ''falling'' (Finite 90) (Some (Finite 100))"
  by (rule determine_alert_status_ignores_trend)

section \<open>Properties of the synchronisation\<close>

lemma keys_no_match:
  "filter (same_key sc ts) rows = [] \<longleftrightarrow> (sc, ts) \<notin> set (reading_keys rows)"
  by (induction rows) (auto simp add: reading_keys_def same_key_def)

lemma keys_update:
  "reading_keys (map (\<lambda>x. if same_key sc ts x
                          then x\<lparr>depth := d, water_level_elevation := wle, data_source := src\<rparr>
                          else x) rows) = reading_keys rows"
  by (induction rows) (auto simp add: reading_keys_def)

lemma unique_at_most_one:
  "unique_readings rows \<Longrightarrow> length (filter (same_key sc ts) rows) \<le> 1"
proof (induction rows)
  case Nil
  then show ?case by simp
next
  case (Cons r rows)
  then have u: "unique_readings rows"
    and nk: "(station r, timestamp r) \<notin> set (reading_keys rows)"
    by (simp_all add: unique_readings_def reading_keys_def)
  show ?case
  proof (cases "same_key sc ts r")
    case True
    then have "(sc, ts) \<notin> set (reading_keys rows)" using nk by (simp add: same_key_def)
    then have "filter (same_key sc ts) rows = []" by (simp add: keys_no_match)
    with True show ?thesis by simp
  next
    case False
    with Cons.IH [OF u] show ?thesis by simp
  qed
qed

lemma update_or_create_cases:
  assumes "unique_readings rows"
  shows "update_or_create rows sc ts d wle src =
           (if (sc, ts) \<in> set (reading_keys rows)
            then Inr (map (\<lambda>x. if same_key sc ts x
                                then x\<lparr>depth := d, water_level_elevation := wle,
                                       data_source := src\<rparr>
                                else x) rows, False)
            else Inr (rows @ [\<lparr>station = sc, timestamp = ts, depth = d,
                               water_level_elevation = wle, data_source = src\<rparr>], True))"
proof (cases "filter (same_key sc ts) rows")
  case Nil
  then show ?thesis by (simp add: update_or_create_def keys_no_match [symmetric])
next
  case (Cons r rest)
  with unique_at_most_one [OF assms, of sc ts] have rest: "rest = []" by simp
  from Cons have "filter (same_key sc ts) rows \<noteq> []" by simp
  then have "(sc, ts) \<in> set (reading_keys rows)" by (simp add: keys_no_match)
  with Cons rest show ?thesis by (simp add: update_or_create_def)
qed

lemma overwrite_row:
  "same_key sc ts x \<Longrightarrow>
   x\<lparr>depth := d, water_level_elevation := wle, data_source := src\<rparr> =
     \<lparr>station = sc, timestamp = ts, depth = d, water_level_elevation = wle,
      data_source = src\<rparr>"
  by (cases x) (simp add: same_key_def)

lemma row_map_update:
  "row_map (map (\<lambda>x. if same_key sc ts x
                      then x\<lparr>depth := d, water_level_elevation := wle, data_source := src\<rparr>
                      else x) rows) =
     (\<lambda>k. if k = (sc, ts) \<and> k \<in> set (reading_keys rows)
          then Some \<lparr>station = sc, timestamp = ts, depth = d, water_level_elevation = wle,
                     data_source = src\<rparr>
          else row_map rows k)"
proof (induction rows)
  case Nil
  then show ?case by (simp add: row_map_def reading_keys_def)
next
  case (Cons r rows)
  show ?case
  proof (cases "same_key sc ts r")
    case True
    then have k: "station r = sc" "timestamp r = ts" by (simp_all add: same_key_def)
    show ?thesis
      using Cons True overwrite_row [OF True, where d = d and wle = wle and src = src]
      by (auto simp add: row_map_def reading_keys_def k fun_eq_iff)
  next
    case False
    then have "(station r, timestamp r) \<noteq> (sc, ts)" by (auto simp add: same_key_def)
    then show ?thesis
      using Cons False by (auto simp add: row_map_def reading_keys_def fun_eq_iff)
  qed
qed

lemma row_map_dom: "row_map rows k = None \<longleftrightarrow> k \<notin> set (reading_keys rows)"
  by (induction rows) (auto simp add: row_map_def reading_keys_def)

lemma row_map_append:
  assumes "(sc, ts) \<notin> set (reading_keys rows)"
  shows "row_map (rows @ [\<lparr>station = sc, timestamp = ts, depth = d,
                            water_level_elevation = wle, data_source = src\<rparr>]) =
           (row_map rows)((sc, ts) \<mapsto> \<lparr>station = sc, timestamp = ts, depth = d,
                                        water_level_elevation = wle, data_source = src\<rparr>)"
  using assms
  by (induction rows) (auto simp add: row_map_def reading_keys_def fun_eq_iff)

lemma update_or_create_step:
  assumes "unique_readings rows"
  shows "\<exists>rows' created.
           update_or_create rows sc ts d wle src = Inr (rows', created) \<and>
           unique_readings rows' \<and>
           row_map rows' =
             (row_map rows)((sc, ts) \<mapsto> \<lparr>station = sc, timestamp = ts, depth = d,
                                          water_level_elevation = wle, data_source = src\<rparr>) \<and>
           length rows' = length rows + (if created then 1 else 0)"
proof (cases "(sc, ts) \<in> set (reading_keys rows)")
  case True
  let ?rows' = "map (\<lambda>x. if same_key sc ts x
                          then x\<lparr>depth := d, water_level_elevation := wle,
                                 data_source := src\<rparr>
                          else x) rows"
  have "update_or_create rows sc ts d wle src = Inr (?rows', False)"
    using update_or_create_cases [OF assms] True by simp
  moreover have "unique_readings ?rows'"
    using assms by (simp add: unique_readings_def keys_update)
  moreover have "row_map ?rows' =
      (row_map rows)((sc, ts) \<mapsto> \<lparr>station = sc, timestamp = ts, depth = d,
                                   water_level_elevation = wle, data_source = src\<rparr>)"
    unfolding row_map_update using True by (auto simp add: fun_eq_iff)
  ultimately show ?thesis
    by (intro exI [where x = "?rows'"] exI [where x = False]) simp
next
  case False
  let ?new = "\<lparr>station = sc, timestamp = ts, depth = d, water_level_elevation = wle,
                data_source = src\<rparr>"
  have "update_or_create rows sc ts d wle src = Inr (rows @ [?new], True)"
    using update_or_create_cases [OF assms] False by simp
  moreover have "unique_readings (rows @ [?new])"
    using assms False by (simp add: unique_readings_def reading_keys_def)
  moreover have "row_map (rows @ [?new]) = (row_map rows)((sc, ts) \<mapsto> ?new)"
    by (rule row_map_append [OF False])
  ultimately show ?thesis
    by (intro exI [where x = "rows @ [?new]"] exI [where x = True]) simp
qed

lemma parse_timestamp_error:
  "parse_timestamp lib tick v = Inl e \<Longrightarrow> e \<noteq> MultipleObjectsReturned"
  by (auto simp add: parse_timestamp_def split: pyval.splits option.splits)

lemma py_float_error:
  "py_float lib v = Inl e \<Longrightarrow> e \<noteq> MultipleObjectsReturned"
  by (auto simp add: py_float_def split: pyval.splits option.splits pyfloat.splits)

lemma decode_record_error:
  "decode_record lib stn tick data = Inl e \<Longrightarrow> e \<noteq> MultipleObjectsReturned"
  by (auto simp add: decode_record_def Let_def split: sum.splits prod.splits
      dest: parse_timestamp_error py_float_error)

lemma decode_batch_error:
  "decode_batch lib stn batch tick = Inl e \<Longrightarrow> e \<noteq> MultipleObjectsReturned"
proof (induction batch arbitrary: tick)
  case Nil
  then show ?case by simp
next
  case (Cons data rest)
  then show ?case
    by (auto split: sum.splits prod.splits dest: decode_record_error)
qed

lemma sync_loop_error:
  "unique_readings rows \<Longrightarrow> decode_batch lib stn batch tick = Inl e \<Longrightarrow>
   sync_loop lib stn batch (rows, count, tick) = Inl e"
proof (induction batch arbitrary: rows count tick)
  case Nil
  then show ?case by simp
next
  case (Cons data rest)
  show ?case
  proof (cases "decode_record lib stn tick data")
    case (Inl e')
    with Cons.prems(2) show ?thesis by simp
  next
    case (Inr p)
    obtain ts d wle tick' where p: "p = ((ts, d, wle), tick')" by (cases p) auto
    from Cons.prems(2) Inr p have rest: "decode_batch lib stn rest tick' = Inl e"
      by (simp split: sum.splits prod.splits)
    obtain rows' created where
      u: "update_or_create rows (station_code stn) ts d wle ''CGWB_API'' = Inr (rows', created)"
      and q: "unique_readings rows'"
      using update_or_create_step [OF Cons.prems(1)] by blast
    from Cons.IH [OF q rest] Inr p u show ?thesis by simp
  qed
qed

lemma sync_loop_result:
  "unique_readings rows \<Longrightarrow> decode_batch lib stn batch tick = Inr (recs, tick') \<Longrightarrow>
   \<exists>rows' count'.
     sync_loop lib stn batch (rows, count, tick) = Inr (rows', count', tick') \<and>
     unique_readings rows' \<and>
     row_map rows' = foldl (store_record (station_code stn)) (row_map rows) recs \<and>
     count' + length rows = count + length rows'"
proof (induction batch arbitrary: rows count tick recs)
  case Nil
  then show ?case by simp
next
  case (Cons data rest)
  from Cons.prems(2) obtain r t rs where
    dr: "decode_record lib stn tick data = Inr (r, t)"
    and db: "decode_batch lib stn rest t = Inr (rs, tick')"
    and recs: "recs = r # rs"
    by (auto split: sum.splits prod.splits)
  obtain ts d wle where r: "r = (ts, d, wle)" by (cases r) auto
  obtain rows1 created where
    u: "update_or_create rows (station_code stn) ts d wle ''CGWB_API'' = Inr (rows1, created)"
    and q: "unique_readings rows1"
    and m: "row_map rows1 = store_record (station_code stn) (row_map rows) r"
    and l: "length rows1 = length rows + (if created then 1 else 0)"
    using update_or_create_step [OF Cons.prems(1), of "station_code stn" ts d wle "''CGWB_API''"]
    unfolding r store_record_def by auto
  from Cons.IH [OF q db, of "if created then count + 1 else count"]
  obtain rows' count' where
    s: "sync_loop lib stn rest (rows1, if created then count + 1 else count, t) =
          Inr (rows', count', tick')"
    and q': "unique_readings rows'"
    and m': "row_map rows' = foldl (store_record (station_code stn)) (row_map rows1) rs"
    and l': "count' + length rows1 = (if created then count + 1 else count) + length rows'"
    by blast
  have "sync_loop lib stn (data # rest) (rows, count, tick) = Inr (rows', count', tick')"
    using dr r u s by simp
  moreover have "row_map rows' = foldl (store_record (station_code stn)) (row_map rows) recs"
    using m m' recs by simp
  moreover have "count' + length rows = count + length rows'"
    using l l' by (simp split: if_splits)
  ultimately show ?case using q' by blast
qed

text \<open>
  C7: readings are unique per station and timestamp, and \<open>sync_water_levels\<close> keeps them
  so for every batch. From a table without two readings of the same station and timestamp
  it leaves such a table, and it never finds several rows for one lookup. When a record
  of the batch cannot be decoded, the call raises that error and the database is
  unchanged. Otherwise the resulting table, read as a map from (station, timestamp) to
  the reading, is the old table with the records of the batch stored one after the other
  under the station and their timestamps: a record overwrites the reading of its station
  and timestamp when there is one and adds a reading otherwise, and the readings of all
  other keys stay as they were. The count returned is the number of readings added.
\<close>

theorem sync_water_levels_keeps_unique:
  assumes "unique_readings (water_level_rows db)"
  shows "unique_readings (water_level_rows (fst (sync_water_levels lib db stn batch))) \<and>
         snd (sync_water_levels lib db stn batch) \<noteq> Inl MultipleObjectsReturned \<and>
         (\<forall>e. decode_batch lib stn batch 0 = Inl e \<longrightarrow>
              sync_water_levels lib db stn batch = (db, Inl e)) \<and>
         (\<forall>recs k. decode_batch lib stn batch 0 = Inr (recs, k) \<longrightarrow>
              row_map (water_level_rows (fst (sync_water_levels lib db stn batch))) =
                foldl (store_record (station_code stn)) (row_map (water_level_rows db)) recs \<and>
              snd (sync_water_levels lib db stn batch) =
                Inr (length (water_level_rows (fst (sync_water_levels lib db stn batch)))
                     - length (water_level_rows db)))"
proof (cases "decode_batch lib stn batch 0")
  case (Inl e)
  have "sync_water_levels lib db stn batch = (db, Inl e)"
    using sync_loop_error [OF assms Inl, of 0] by (simp add: sync_water_levels_def)
  with assms Inl decode_batch_error [OF Inl] show ?thesis by simp
next
  case (Inr p)
  obtain recs k where p: "p = (recs, k)" by (cases p)
  from sync_loop_result [OF assms, of lib stn batch 0 recs k 0] Inr p
  obtain rows' count' where
    s: "sync_loop lib stn batch (water_level_rows db, 0, 0) = Inr (rows', count', k)"
    and q: "unique_readings rows'"
    and m: "row_map rows' =
              foldl (store_record (station_code stn)) (row_map (water_level_rows db)) recs"
    and l: "count' + length (water_level_rows db) = 0 + length rows'"
    by blast
  from l have c: "count' = length rows' - length (water_level_rows db)" by simp
  from s q m c Inr p show ?thesis by (simp add: sync_water_levels_def)
qed

theorem sync_water_levels_keeps_unique_witness:
  "unique_readings [reading 0 10] \<and>
   unique_readings (water_level_rows (fst (sync_water_levels sample_library
      \<lparr>water_level_rows = [reading 0 10], station_rows = Map.empty\<rparr> (well (Some (Finite 50)))
      [[''timestamp'' \<mapsto> PStr ''2024-01-01'', ''depth'' \<mapsto> PFloat (Finite 11)],
       [''date'' \<mapsto> PStr ''2024-01-02'', ''water_level'' \<mapsto> PFloat (Finite 12)]]))) \<and>
   sync_water_levels sample_library
      \<lparr>water_level_rows = [reading 0 10], station_rows = Map.empty\<rparr> (well (Some (Finite 50)))
      [[''timestamp'' \<mapsto> PStr ''2024-01-01'', ''depth'' \<mapsto> PFloat (Finite 11)],
       [''date'' \<mapsto> PStr ''2024-01-02'', ''water_level'' \<mapsto> PFloat (Finite 12)]] =
     (\<lparr>water_level_rows = [reading 0 11, reading 86400000000 12],
       station_rows = [''W1'' \<mapsto> \<lparr>station_code = ''W1'', well_depth = Some (Finite 50),
                                  elevation = None,
                                  last_data_update = Some 172800000000\<rparr>]\<rparr>, Inr 1)"
proof -
  let ?db = "\<lparr>water_level_rows = [reading 0 10], station_rows = Map.empty\<rparr>"
  let ?batch = "[[''timestamp'' \<mapsto> PStr ''2024-01-01'', ''depth'' \<mapsto> PFloat (Finite 11)],
                 [''date'' \<mapsto> PStr ''2024-01-02'', ''water_level'' \<mapsto> PFloat (Finite 12)]]"
  have h: "unique_readings (water_level_rows ?db)"
    by (simp add: unique_readings_def reading_keys_def)
  have u: "unique_readings (water_level_rows
             (fst (sync_water_levels sample_library ?db (well (Some (Finite 50))) ?batch)))"
    using sync_water_levels_keeps_unique [OF h, of sample_library "well (Some (Finite 50))" ?batch]
    by blast
  have e: "sync_water_levels sample_library ?db (well (Some (Finite 50))) ?batch =
     (\<lparr>water_level_rows = [reading 0 11, reading 86400000000 12],
       station_rows = [''W1'' \<mapsto> \<lparr>station_code = ''W1'', well_depth = Some (Finite 50),
                                  elevation = None,
                                  last_data_update = Some 172800000000\<rparr>]\<rparr>, Inr 1)"
    by (simp add: sync_water_levels_def decode_record_def Let_def py_or_def dict_get_def
        truthy_def is_zero_def parse_timestamp_def replace_Z_def py_float_def
        update_or_create_def same_key_def truthy_opt_def)
  from h u e show ?thesis by simp
qed

end
